theory Spec2Isabelle
  imports Main "HOL-Library.AList"
begin

section \<open>Python values, keyword arguments and exceptions\<close>

text \<open>
  The scalar values that travel through \<^verbatim>\<open>QuerySet\<close>: \<^verbatim>\<open>None\<close>, booleans, integers and
  strings, plus nested model objects and lists of them (a related object, a related
  collection).  A keyword-argument dictionary and the field mapping of a model instance
  are association lists; \<open>AList.update\<close> is Python's \<^verbatim>\<open>d[k] = v\<close> (replace in place or
  append), \<open>AList.delete\<close> is \<^verbatim>\<open>del d[k]\<close>, \<open>map_of d k\<close> is the lookup.
\<close>

datatype val =
    VNone
  | VBool bool
  | VInt int
  | VStr string
  | VModel "(string \<times> val) list"
  | VList "val list"

type_synonym kwargs = "(string \<times> val) list"
type_synonym model_instance = "(string \<times> val) list"

datatype pytype = TBool | TInt | TStr

text \<open>Python truthiness (\<^verbatim>\<open>if pk\<close>) and \<^verbatim>\<open>isinstance\<close>; \<^verbatim>\<open>bool\<close> is a subclass of \<^verbatim>\<open>int\<close>.\<close>

fun truthy :: "val \<Rightarrow> bool" where
  "truthy VNone = False"
| "truthy (VBool b) = b"
| "truthy (VInt i) = (i \<noteq> 0)"
| "truthy (VStr s) = (s \<noteq> [])"
| "truthy (VModel m) = True"
| "truthy (VList xs) = (xs \<noteq> [])"

fun isinstance :: "val \<Rightarrow> pytype \<Rightarrow> bool" where
  "isinstance (VBool b) TBool = True"
| "isinstance (VBool b) TInt = True"
| "isinstance (VInt i) TInt = True"
| "isinstance (VStr s) TStr = True"
| "isinstance v t = False"

text \<open>
  The exceptions of the module.  A failure of the database transport carries the
  transport's own message and is a class of its own: the transport cannot raise one of
  the ORM's exceptions.
\<close>

datatype error =
    ValueError string
  | KeyError string
  | IndexError
  | NoMatch
  | MultipleMatches
  | QueryDefinitionError string
  | TransportError string

section \<open>Entity metadata\<close>

text \<open>
  What \<^verbatim>\<open>QuerySet\<close> reads from the model class and its \<^verbatim>\<open>Meta\<close>: \<^verbatim>\<open>__name__\<close>,
  \<^verbatim>\<open>Meta.pkname\<close>, \<^verbatim>\<open>Meta.model_fields\<close> (per field \<^verbatim>\<open>has_default()\<close>, \<^verbatim>\<open>get_default()\<close>,
  \<^verbatim>\<open>nullable\<close>, \<^verbatim>\<open>autoincrement\<close>), \<^verbatim>\<open>pk_type()\<close>, \<^verbatim>\<open>extract_db_own_fields()\<close> and
  \<^verbatim>\<open>extract_related_names()\<close>.
\<close>

record field =
  has_default :: bool
  get_default :: val
  nullable :: bool
  autoincrement :: bool

record model_class =
  cls_name :: string
  pkname :: string
  model_fields :: "(string \<times> field) list"
  pk_type :: pytype
  extract_db_own_fields :: "string list"
  extract_related_names :: "string list"

section \<open>The query specification\<close>

text \<open>
  \<^verbatim>\<open>QuerySet.__init__\<close>: the attributes of a specification.  \<open>select_related_list\<close> is the
  attribute \<^verbatim>\<open>_select_related\<close>; \<open>'c\<close> is the type of the predicate clauses, opaque here.
\<close>

record 'c QuerySet =
  model_cls :: "model_class option"
  filter_clauses :: "'c list"
  exclude_clauses :: "'c list"
  select_related_list :: "string list"
  limit_count :: "int option"
  query_offset :: "int option"
  order_bys :: "string list option"

definition QuerySet_init ::
  "model_class option \<Rightarrow> 'c list option \<Rightarrow> 'c list option \<Rightarrow> string list option \<Rightarrow>
   int option \<Rightarrow> int option \<Rightarrow> 'c QuerySet" where
  "QuerySet_init mc fc ec sr lc off =
     \<lparr> model_cls = mc,
       filter_clauses = (case fc of None \<Rightarrow> [] | Some cs \<Rightarrow> cs),
       exclude_clauses = (case ec of None \<Rightarrow> [] | Some cs \<Rightarrow> cs),
       select_related_list = (case sr of None \<Rightarrow> [] | Some ps \<Rightarrow> ps),
       limit_count = lc,
       query_offset = off,
       order_bys = None \<rparr>"

text \<open>The property \<^verbatim>\<open>model\<close>: raises when the class is not set.\<close>

definition model :: "'c QuerySet \<Rightarrow> error + model_class" where
  "model q =
     (case model_cls q of
        None \<Rightarrow> Inl (ValueError ''Model class of QuerySet is not initialized'')
      | Some m \<Rightarrow> Inr m)"

section \<open>Statements and the collaborators\<close>

text \<open>
  \<^verbatim>\<open>Query(...).build_select_expression()\<close> is the statement builder; the statement is kept
  as the six things the builder is handed.  The write statements are the ones the module
  builds from \<^verbatim>\<open>table.insert()\<close>, \<^verbatim>\<open>table.update()\<close> and \<^verbatim>\<open>table.delete()\<close>.
\<close>

record 'c select =
  sel_model :: model_class
  sel_related :: "string list"
  sel_filters :: "'c list"
  sel_excludes :: "'c list"
  sel_offset :: "int option"
  sel_limit :: "int option"

datatype 'c stmt =
    Insert kwargs
  | Update "'c list" kwargs
  | Delete "'c list"
  | InsertMany
  | UpdateMany string "string list"

datatype 'c call =
    FetchAll "'c select"
  | Execute "'c stmt"
  | ExecuteMany "'c stmt" "kwargs list"

text \<open>
  The collaborators the module calls and that live outside it: the predicate builder
  \<^verbatim>\<open>QueryClause(model_cls, select_related, filter_clauses).filter(**kwargs)\<close>, the model
  class's \<^verbatim>\<open>from_row\<close>, \<^verbatim>\<open>merge_instances_list\<close>, \<^verbatim>\<open>substitute_models_with_pks\<close> and
  constructor, and the database's \<^verbatim>\<open>fetch_all\<close>, \<^verbatim>\<open>execute\<close> and \<^verbatim>\<open>execute_many\<close> over a
  database state \<open>'db\<close>.  They are parameters of every operation below.
\<close>

record ('c, 'r, 'db) env =
  qryclause_filter :: "model_class \<Rightarrow> string list \<Rightarrow> 'c list \<Rightarrow> kwargs \<Rightarrow> 'c list \<times> string list"
  from_row :: "model_class \<Rightarrow> 'r \<Rightarrow> string list \<Rightarrow> model_instance option"
  merge_instances_list :: "model_class \<Rightarrow> model_instance option list \<Rightarrow> model_instance option list"
  substitute_models_with_pks :: "model_class \<Rightarrow> kwargs \<Rightarrow> kwargs"
  new_instance :: "model_class \<Rightarrow> kwargs \<Rightarrow> model_instance"
  fetch_all :: "'c select \<Rightarrow> 'db \<Rightarrow> string + 'r list"
  execute :: "'c stmt \<Rightarrow> 'db \<Rightarrow> (string + val) \<times> 'db"
  execute_many :: "'c stmt \<Rightarrow> kwargs list \<Rightarrow> 'db \<Rightarrow> (string + unit) \<times> 'db"

text \<open>
  The world a terminal operation runs in: the database state and the sequence of calls
  the transport has received so far.
\<close>

record ('c, 'db) world =
  store :: 'db
  issued :: "'c call list"

definition db_fetch_all ::
  "('c, 'r, 'db) env \<Rightarrow> 'c select \<Rightarrow> ('c, 'db) world \<Rightarrow> (error + 'r list) \<times> ('c, 'db) world" where
  "db_fetch_all E s w =
     (case fetch_all E s (store w) of
        Inl msg \<Rightarrow> (Inl (TransportError msg), w\<lparr>issued := issued w @ [FetchAll s]\<rparr>)
      | Inr rows \<Rightarrow> (Inr rows, w\<lparr>issued := issued w @ [FetchAll s]\<rparr>))"

definition db_execute ::
  "('c, 'r, 'db) env \<Rightarrow> 'c stmt \<Rightarrow> ('c, 'db) world \<Rightarrow> (error + val) \<times> ('c, 'db) world" where
  "db_execute E s w =
     (case execute E s (store w) of
        (Inl msg, d) \<Rightarrow> (Inl (TransportError msg), \<lparr>store = d, issued = issued w @ [Execute s]\<rparr>)
      | (Inr v, d) \<Rightarrow> (Inr v, \<lparr>store = d, issued = issued w @ [Execute s]\<rparr>))"

definition db_execute_many ::
  "('c, 'r, 'db) env \<Rightarrow> 'c stmt \<Rightarrow> kwargs list \<Rightarrow> ('c, 'db) world \<Rightarrow>
   (error + unit) \<times> ('c, 'db) world" where
  "db_execute_many E s rows w =
     (case execute_many E s rows (store w) of
        (Inl msg, d) \<Rightarrow>
          (Inl (TransportError msg), \<lparr>store = d, issued = issued w @ [ExecuteMany s rows]\<rparr>)
      | (Inr u, d) \<Rightarrow> (Inr u, \<lparr>store = d, issued = issued w @ [ExecuteMany s rows]\<rparr>))"

section \<open>Chain methods\<close>

text \<open>
  \<^verbatim>\<open>QuerySet.filter(_exclude, **kwargs)\<close>.  The predicate builder is seeded with the
  receiver's \<^verbatim>\<open>_select_related\<close> and \<^verbatim>\<open>filter_clauses\<close>; what it returns becomes the new
  \<^verbatim>\<open>exclude_clauses\<close> when \<^verbatim>\<open>_exclude\<close> is set and the new \<^verbatim>\<open>filter_clauses\<close> otherwise.
\<close>

definition filter_qs ::
  "('c, 'r, 'db) env \<Rightarrow> 'c QuerySet \<Rightarrow> bool \<Rightarrow> kwargs \<Rightarrow> error + 'c QuerySet" where
  "filter_qs E q exclude_flag kw =
     (case model q of
        Inl e \<Rightarrow> Inl e
      | Inr m \<Rightarrow>
          (case qryclause_filter E m (select_related_list q) (filter_clauses q) kw of
             (built, related) \<Rightarrow>
               (if exclude_flag
                then Inr (QuerySet_init (Some m) (Some (filter_clauses q)) (Some built)
                            (Some related) (limit_count q) (query_offset q))
                else Inr (QuerySet_init (Some m) (Some built) (Some (exclude_clauses q))
                            (Some related) (limit_count q) (query_offset q)))))"

definition exclude ::
  "('c, 'r, 'db) env \<Rightarrow> 'c QuerySet \<Rightarrow> kwargs \<Rightarrow> error + 'c QuerySet" where
  "exclude E q kw = filter_qs E q True kw"

text \<open>
  \<^verbatim>\<open>QuerySet.select_related(related)\<close>: a single path is wrapped in a list; the result is
  \<^verbatim>\<open>list(set(list(self._select_related) + related))\<close>.  Python leaves the order of that
  list open; \<open>remdups\<close> fixes one, and nothing below depends on it.
\<close>

datatype related_arg = Single string | Many "string list"

definition as_list :: "related_arg \<Rightarrow> string list" where
  "as_list related = (case related of Single p \<Rightarrow> [p] | Many ps \<Rightarrow> ps)"

definition select_related :: "'c QuerySet \<Rightarrow> related_arg \<Rightarrow> error + 'c QuerySet" where
  "select_related q related =
     (let rel' = remdups (select_related_list q @ as_list related)
      in case model q of
           Inl e \<Rightarrow> Inl e
         | Inr m \<Rightarrow>
             Inr (QuerySet_init (Some m) (Some (filter_clauses q)) (Some (exclude_clauses q))
                    (Some rel') (limit_count q) (query_offset q)))"

definition limit :: "'c QuerySet \<Rightarrow> int \<Rightarrow> error + 'c QuerySet" where
  "limit q n =
     (case model q of
        Inl e \<Rightarrow> Inl e
      | Inr m \<Rightarrow>
          Inr (QuerySet_init (Some m) (Some (filter_clauses q)) (Some (exclude_clauses q))
                 (Some (select_related_list q)) (Some n) (query_offset q)))"

definition offset :: "'c QuerySet \<Rightarrow> int \<Rightarrow> error + 'c QuerySet" where
  "offset q n =
     (case model q of
        Inl e \<Rightarrow> Inl e
      | Inr m \<Rightarrow>
          Inr (QuerySet_init (Some m) (Some (filter_clauses q)) (Some (exclude_clauses q))
                 (Some (select_related_list q)) (limit_count q) (Some n)))"

section \<open>Reading\<close>

definition build_select_expression :: "'c QuerySet \<Rightarrow> error + 'c select" where
  "build_select_expression q =
     (case model q of
        Inl e \<Rightarrow> Inl e
      | Inr m \<Rightarrow>
          Inr \<lparr> sel_model = m,
                sel_related = select_related_list q,
                sel_filters = filter_clauses q,
                sel_excludes = exclude_clauses q,
                sel_offset = query_offset q,
                sel_limit = limit_count q \<rparr>)"

text \<open>\<^verbatim>\<open>_process_query_result_rows\<close>: materialize every row, merge when there is any.\<close>

definition process_query_result_rows ::
  "('c, 'r, 'db) env \<Rightarrow> 'c QuerySet \<Rightarrow> 'r list \<Rightarrow> error + model_instance option list" where
  "process_query_result_rows E q rows =
     (if rows = [] then Inr []
      else case model q of
             Inl e \<Rightarrow> Inl e
           | Inr m \<Rightarrow>
               Inr (merge_instances_list E m
                      (map (\<lambda>row. from_row E m row (select_related_list q)) rows)))"

text \<open>\<^verbatim>\<open>check_single_result_rows_count\<close>.\<close>

definition check_single_result_rows_count :: "'a option list \<Rightarrow> error + unit" where
  "check_single_result_rows_count rows =
     (if rows = [] \<or> hd rows = None then Inl NoMatch
      else if length rows > 1 then Inl MultipleMatches
      else Inr ())"

text \<open>\<^verbatim>\<open>rows[0]\<close>, with Python's failure on an empty list.\<close>

definition item0 :: "'a list \<Rightarrow> error + 'a" where
  "item0 rows = (case rows of [] \<Rightarrow> Inl IndexError | r # _ \<Rightarrow> Inr r)"

text \<open>\<^verbatim>\<open>QuerySet.all()\<close> without keyword arguments, and with them.\<close>

definition all0 ::
  "('c, 'r, 'db) env \<Rightarrow> 'c QuerySet \<Rightarrow> ('c, 'db) world \<Rightarrow>
   (error + model_instance option list) \<times> ('c, 'db) world" where
  "all0 E q w =
     (case build_select_expression q of
        Inl e \<Rightarrow> (Inl e, w)
      | Inr expr \<Rightarrow>
          (case db_fetch_all E expr w of
             (Inl e, w') \<Rightarrow> (Inl e, w')
           | (Inr rows, w') \<Rightarrow> (process_query_result_rows E q rows, w')))"

definition all ::
  "('c, 'r, 'db) env \<Rightarrow> 'c QuerySet \<Rightarrow> kwargs \<Rightarrow> ('c, 'db) world \<Rightarrow>
   (error + model_instance option list) \<times> ('c, 'db) world" where
  "all E q kw w =
     (if kw \<noteq> [] then
        (case filter_qs E q False kw of Inl e \<Rightarrow> (Inl e, w) | Inr q' \<Rightarrow> all0 E q' w)
      else all0 E q w)"

text \<open>\<^verbatim>\<open>QuerySet.first()\<close>: \<^verbatim>\<open>self.limit(1).all()\<close>, the check, \<^verbatim>\<open>rows[0]\<close>.\<close>

definition first0 ::
  "('c, 'r, 'db) env \<Rightarrow> 'c QuerySet \<Rightarrow> ('c, 'db) world \<Rightarrow>
   (error + model_instance option) \<times> ('c, 'db) world" where
  "first0 E q w =
     (case limit q 1 of
        Inl e \<Rightarrow> (Inl e, w)
      | Inr q1 \<Rightarrow>
          (case all0 E q1 w of
             (Inl e, w') \<Rightarrow> (Inl e, w')
           | (Inr rows, w') \<Rightarrow>
               (case check_single_result_rows_count rows of
                  Inl e \<Rightarrow> (Inl e, w')
                | Inr _ \<Rightarrow> (item0 rows, w'))))"

definition first ::
  "('c, 'r, 'db) env \<Rightarrow> 'c QuerySet \<Rightarrow> kwargs \<Rightarrow> ('c, 'db) world \<Rightarrow>
   (error + model_instance option) \<times> ('c, 'db) world" where
  "first E q kw w =
     (if kw \<noteq> [] then
        (case filter_qs E q False kw of Inl e \<Rightarrow> (Inl e, w) | Inr q' \<Rightarrow> first0 E q' w)
      else first0 E q w)"

text \<open>
  \<^verbatim>\<open>QuerySet.get()\<close>: the select statement, capped at two rows when the specification
  has no filter clause; fetch, materialize, the check, \<^verbatim>\<open>processed_rows[0]\<close>.
\<close>

definition get0 ::
  "('c, 'r, 'db) env \<Rightarrow> 'c QuerySet \<Rightarrow> ('c, 'db) world \<Rightarrow>
   (error + model_instance option) \<times> ('c, 'db) world" where
  "get0 E q w =
     (case build_select_expression q of
        Inl e \<Rightarrow> (Inl e, w)
      | Inr expr0 \<Rightarrow>
          (let expr = (if filter_clauses q = [] then expr0\<lparr>sel_limit := Some 2\<rparr> else expr0)
           in case db_fetch_all E expr w of
                (Inl e, w') \<Rightarrow> (Inl e, w')
              | (Inr rows, w') \<Rightarrow>
                  (case process_query_result_rows E q rows of
                     Inl e \<Rightarrow> (Inl e, w')
                   | Inr processed_rows \<Rightarrow>
                       (case check_single_result_rows_count processed_rows of
                          Inl e \<Rightarrow> (Inl e, w')
                        | Inr _ \<Rightarrow> (item0 processed_rows, w')))))"

definition get ::
  "('c, 'r, 'db) env \<Rightarrow> 'c QuerySet \<Rightarrow> kwargs \<Rightarrow> ('c, 'db) world \<Rightarrow>
   (error + model_instance option) \<times> ('c, 'db) world" where
  "get E q kw w =
     (if kw \<noteq> [] then
        (case filter_qs E q False kw of Inl e \<Rightarrow> (Inl e, w) | Inr q' \<Rightarrow> get0 E q' w)
      else get0 E q w)"

section \<open>Writing\<close>

text \<open>
  \<^verbatim>\<open>_populate_default_values\<close>: the loop over \<^verbatim>\<open>model_fields.items()\<close>.  A default
  provider is taken to be a value.
\<close>

fun populate_fields :: "(string \<times> field) list \<Rightarrow> kwargs \<Rightarrow> kwargs" where
  "populate_fields [] new_kwargs = new_kwargs"
| "populate_fields ((field_name, fld) # rest) new_kwargs =
     populate_fields rest
       (if map_of new_kwargs field_name = None \<and> has_default fld
        then AList.update field_name (get_default fld) new_kwargs
        else new_kwargs)"

definition populate_default_values :: "model_class \<Rightarrow> kwargs \<Rightarrow> kwargs" where
  "populate_default_values m new_kwargs = populate_fields (model_fields m) new_kwargs"

text \<open>
  \<^verbatim>\<open>_remove_pk_from_kwargs\<close>: \<^verbatim>\<open>model_fields[pkname]\<close> fails on a missing key; the key is
  deleted when it is present with the value \<^verbatim>\<open>None\<close> and the field is nullable or
  autoincrementing.
\<close>

definition remove_pk_from_kwargs :: "model_class \<Rightarrow> kwargs \<Rightarrow> error + kwargs" where
  "remove_pk_from_kwargs m new_kwargs =
     (case map_of (model_fields m) (pkname m) of
        None \<Rightarrow> Inl (KeyError (pkname m))
      | Some pk \<Rightarrow>
          (if map_of new_kwargs (pkname m) = Some VNone \<and> (nullable pk \<or> autoincrement pk)
           then Inr (AList.delete (pkname m) new_kwargs)
           else Inr new_kwargs))"

text \<open>
  \<^verbatim>\<open>QuerySet.update(each, **kwargs)\<close>: the keyword arguments are cut down to the model's
  own fields, the guard, then one \<^verbatim>\<open>execute\<close> of an update scoped by the filter clauses.
\<close>

definition update ::
  "('c, 'r, 'db) env \<Rightarrow> 'c QuerySet \<Rightarrow> bool \<Rightarrow> kwargs \<Rightarrow> ('c, 'db) world \<Rightarrow>
   (error + val) \<times> ('c, 'db) world" where
  "update E q each kw w =
     (case model q of
        Inl e \<Rightarrow> (Inl e, w)
      | Inr m \<Rightarrow>
          (let updates = filter (\<lambda>(k, v). k \<in> set (extract_db_own_fields m)) kw
           in if \<not> each \<and> filter_clauses q = []
              then (Inl (QueryDefinitionError
                      (''You cannot update without filtering the queryset first. '' @
                       ''If you want to update all rows use update(each=True, **kwargs)'')), w)
              else db_execute E (Update (filter_clauses q) updates) w))"

text \<open>
  \<^verbatim>\<open>QuerySet.create(**kwargs)\<close>.  \<open>pk\<close> is what the driver's \<^verbatim>\<open>execute\<close> returned; the
  two assignments onto the new instance follow the source's two \<^verbatim>\<open>if\<close>s.
\<close>

definition assign_pk :: "model_class \<Rightarrow> val \<Rightarrow> model_instance \<Rightarrow> model_instance" where
  "assign_pk m pk inst =
     (if truthy pk \<and> isinstance pk (pk_type m) then AList.update (pkname m) pk inst else inst)"

definition assign_default_pk ::
  "model_class \<Rightarrow> kwargs \<Rightarrow> kwargs \<Rightarrow> model_instance \<Rightarrow> model_instance" where
  "assign_default_pk m kw new_kwargs inst =
     (case map_of new_kwargs (pkname m) of
        None \<Rightarrow> inst
      | Some v \<Rightarrow> (if map_of kw (pkname m) = None then AList.update (pkname m) v inst else inst))"

definition create ::
  "('c, 'r, 'db) env \<Rightarrow> 'c QuerySet \<Rightarrow> kwargs \<Rightarrow> ('c, 'db) world \<Rightarrow>
   (error + model_instance) \<times> ('c, 'db) world" where
  "create E q kw w =
     (case model q of
        Inl e \<Rightarrow> (Inl e, w)
      | Inr m \<Rightarrow>
          (case remove_pk_from_kwargs m kw of
             Inl e \<Rightarrow> (Inl e, w)
           | Inr kw1 \<Rightarrow>
               (let new_kwargs = populate_default_values m (substitute_models_with_pks E m kw1);
                    inst = new_instance E m kw
                in case db_execute E (Insert new_kwargs) w of
                     (Inl e, w') \<Rightarrow> (Inl e, w')
                   | (Inr pk, w') \<Rightarrow>
                       (Inr (assign_pk m pk (assign_default_pk m kw new_kwargs inst)), w'))))"

text \<open>\<^verbatim>\<open>QuerySet.get_or_create\<close>: only \<^verbatim>\<open>NoMatch\<close> is caught.\<close>

definition get_or_create ::
  "('c, 'r, 'db) env \<Rightarrow> 'c QuerySet \<Rightarrow> kwargs \<Rightarrow> ('c, 'db) world \<Rightarrow>
   (error + model_instance option) \<times> ('c, 'db) world" where
  "get_or_create E q kw w =
     (case get E q kw w of
        (Inl NoMatch, w') \<Rightarrow>
          (case create E q kw w' of
             (Inl e, w'') \<Rightarrow> (Inl e, w'')
           | (Inr inst, w'') \<Rightarrow> (Inr (Some inst), w''))
      | (Inl e, w') \<Rightarrow> (Inl e, w')
      | (Inr found, w') \<Rightarrow> (Inr found, w'))"

text \<open>
  \<^verbatim>\<open>QuerySet.bulk_create(objects)\<close>.  The objects are the caller's and are passed by
  reference, and the helpers \<^verbatim>\<open>_remove_pk_from_kwargs\<close> and \<^verbatim>\<open>_populate_default_values\<close>
  change the dictionary they are handed in place.  So this operation runs on a heap of
  mappings: a reference is an index, \<^verbatim>\<open>objt.dict()\<close> allocates a new dictionary holding the
  object's fields, and each helper rewrites the cell it is given and returns the same
  reference.  The batch handed to \<^verbatim>\<open>execute_many\<close> is read off the heap after the loop;
  the call returns \<^verbatim>\<open>None\<close>.
\<close>

definition obj_dict :: "kwargs list \<Rightarrow> nat \<Rightarrow> nat \<times> kwargs list" where
  "obj_dict heap objt = (length heap, heap @ [heap ! objt])"

definition remove_pk_in_place ::
  "model_class \<Rightarrow> nat \<Rightarrow> kwargs list \<Rightarrow> (error + nat) \<times> kwargs list" where
  "remove_pk_in_place m new_kwargs heap =
     (case remove_pk_from_kwargs m (heap ! new_kwargs) of
        Inl e \<Rightarrow> (Inl e, heap)
      | Inr kw \<Rightarrow> (Inr new_kwargs, heap[new_kwargs := kw]))"

definition substitute_in_place ::
  "('c, 'r, 'db) env \<Rightarrow> model_class \<Rightarrow> nat \<Rightarrow> kwargs list \<Rightarrow> nat \<times> kwargs list" where
  "substitute_in_place E m new_kwargs heap =
     (new_kwargs, heap[new_kwargs := substitute_models_with_pks E m (heap ! new_kwargs)])"

definition populate_in_place :: "model_class \<Rightarrow> nat \<Rightarrow> kwargs list \<Rightarrow> nat \<times> kwargs list" where
  "populate_in_place m new_kwargs heap =
     (new_kwargs, heap[new_kwargs := populate_default_values m (heap ! new_kwargs)])"

fun bulk_create_loop ::
  "('c, 'r, 'db) env \<Rightarrow> model_class \<Rightarrow> nat list \<Rightarrow> kwargs list \<Rightarrow>
   (error + nat list) \<times> kwargs list" where
  "bulk_create_loop E m [] heap = (Inr [], heap)"
| "bulk_create_loop E m (objt # objects) heap =
     (case obj_dict heap objt of
        (r0, h0) \<Rightarrow>
          (case remove_pk_in_place m r0 h0 of
             (Inl e, h1) \<Rightarrow> (Inl e, h1)
           | (Inr r1, h1) \<Rightarrow>
               (case substitute_in_place E m r1 h1 of
                  (r2, h2) \<Rightarrow>
                    (case populate_in_place m r2 h2 of
                       (r3, h3) \<Rightarrow>
                         (case bulk_create_loop E m objects h3 of
                            (Inl e, h4) \<Rightarrow> (Inl e, h4)
                          | (Inr ready, h4) \<Rightarrow> (Inr (r3 # ready), h4))))))"

definition bulk_create ::
  "('c, 'r, 'db) env \<Rightarrow> 'c QuerySet \<Rightarrow> nat list \<Rightarrow> kwargs list \<Rightarrow> ('c, 'db) world \<Rightarrow>
   ((error + unit) \<times> kwargs list) \<times> ('c, 'db) world" where
  "bulk_create E q objects heap w =
     (case model q of
        Inl e \<Rightarrow> ((Inl e, heap), w)
      | Inr m \<Rightarrow>
          (case bulk_create_loop E m objects heap of
             (Inl e, heap') \<Rightarrow> ((Inl e, heap'), w)
           | (Inr ready_objects, heap') \<Rightarrow>
               (case db_execute_many E InsertMany (map (\<lambda>r. heap' ! r) ready_objects) w of
                  (res, w') \<Rightarrow> ((res, heap'), w'))))"

text \<open>
  \<^verbatim>\<open>QuerySet.bulk_update(objects, columns)\<close>.  Missing or empty \<^verbatim>\<open>columns\<close> become the
  model's own fields and relation names; the primary key is appended when absent.  The
  loop raises at the first object whose mapping has no primary key or \<^verbatim>\<open>None\<close> for it;
  the batched statement is executed after the loop.
\<close>

definition bulk_update_columns :: "model_class \<Rightarrow> string list option \<Rightarrow> string list" where
  "bulk_update_columns m columns =
     (let dflt = remdups (extract_db_own_fields m @ extract_related_names m);
          cols = (case columns of None \<Rightarrow> dflt | Some [] \<Rightarrow> dflt | Some (c # cs) \<Rightarrow> c # cs)
      in if pkname m \<in> set cols then cols else cols @ [pkname m])"

definition unsaved_message :: "model_class \<Rightarrow> string" where
  "unsaved_message m =
     ''You cannot update unsaved objects. '' @ cls_name m @ '' has to have '' @ pkname m @
     '' filled.''"

fun bulk_update_rows ::
  "('c, 'r, 'db) env \<Rightarrow> model_class \<Rightarrow> string list \<Rightarrow> model_instance list \<Rightarrow>
   error + kwargs list" where
  "bulk_update_rows E m columns [] = Inr []"
| "bulk_update_rows E m columns (objt # objects) =
     (if map_of objt (pkname m) = None \<or> map_of objt (pkname m) = Some VNone
      then Inl (QueryDefinitionError (unsaved_message m))
      else case bulk_update_rows E m columns objects of
             Inl e \<Rightarrow> Inl e
           | Inr ready \<Rightarrow>
               Inr (map (\<lambda>(k, v). (''new_'' @ k, v))
                      (filter (\<lambda>(k, v). k \<in> set columns) (substitute_models_with_pks E m objt))
                    # ready))"

definition bulk_update ::
  "('c, 'r, 'db) env \<Rightarrow> 'c QuerySet \<Rightarrow> model_instance list \<Rightarrow> string list option \<Rightarrow>
   ('c, 'db) world \<Rightarrow> (error + unit) \<times> ('c, 'db) world" where
  "bulk_update E q objects columns w =
     (case model q of
        Inl e \<Rightarrow> (Inl e, w)
      | Inr m \<Rightarrow>
          (let cols = bulk_update_columns m columns
           in case bulk_update_rows E m cols objects of
                Inl e \<Rightarrow> (Inl e, w)
              | Inr ready_objects \<Rightarrow>
                  db_execute_many E
                    (UpdateMany (pkname m) (filter (\<lambda>k. k \<noteq> pkname m) cols)) ready_objects w))"

section \<open>Specifications as objects\<close>

text \<open>
  A \<^verbatim>\<open>QuerySet\<close> is a Python object: a chain method is called on a reference and answers
  with a reference.  The heap is the list of the specifications allocated so far, a
  reference is an index into it, and \<^verbatim>\<open>self.__class__(...)\<close> allocates at the end.  No
  chain method assigns to an attribute of \<^verbatim>\<open>self\<close>.
\<close>

datatype chain_call =
    CFilter kwargs
  | CExclude kwargs
  | CSelectRelated related_arg
  | CLimit int
  | COffset int

fun chain :: "('c, 'r, 'db) env \<Rightarrow> 'c QuerySet \<Rightarrow> chain_call \<Rightarrow> error + 'c QuerySet" where
  "chain E q (CFilter kw) = filter_qs E q False kw"
| "chain E q (CExclude kw) = exclude E q kw"
| "chain E q (CSelectRelated related) = select_related q related"
| "chain E q (CLimit n) = limit q n"
| "chain E q (COffset n) = offset q n"

fun chain_all :: "('c, 'r, 'db) env \<Rightarrow> 'c QuerySet \<Rightarrow> chain_call list \<Rightarrow> error + 'c QuerySet" where
  "chain_all E q [] = Inr q"
| "chain_all E q (c # cs) =
     (case chain E q c of Inl e \<Rightarrow> Inl e | Inr q' \<Rightarrow> chain_all E q' cs)"


section \<open>A concrete setting: albums and their tracks\<close>

text \<open>
  The collaborators are not part of the module.  For running the operations on concrete
  data they are given here in a simple form that follows the specification's description
  of their contracts.  A clause is a keyword lookup \<^verbatim>\<open>column=value\<close>; a raw row maps
  column names to values, the joined child (if any) sitting under the relation's name;
  the database state is the list of raw rows the select ranges over.
\<close>

type_synonym clause = "string \<times> val"

definition holds :: "clause \<Rightarrow> kwargs \<Rightarrow> bool" where
  "holds c row = (map_of row (fst c) = Some (snd c))"

text \<open>
  Modelled from the spec: \<^verbatim>\<open>QueryClause.filter\<close>, the predicate builder (\<section>6), which is not
  in the sources.  It builds one predicate per keyword argument.  The module seeds it
  with the receiver's filter clauses and takes its answer as the whole new clause list;
  filter clauses accumulate along a chain (\<section>3, \<section>4.2), so the answer continues the
  seed.  No nested lookup is modelled: the select-related paths come back as given.
\<close>

definition demo_qryclause_filter ::
  "model_class \<Rightarrow> string list \<Rightarrow> clause list \<Rightarrow> kwargs \<Rightarrow> clause list \<times> string list" where
  "demo_qryclause_filter m related clauses kw = (clauses @ kw, related)"

text \<open>
  Modelled from the spec: \<^verbatim>\<open>Model.from_row\<close> (\<section>4.3, step 1), not in the sources.  A row
  without a primary-key value gives no object; a joined child becomes a one-element
  collection under its relation, a null child an absent relation.
\<close>

definition demo_from_row :: "model_class \<Rightarrow> kwargs \<Rightarrow> string list \<Rightarrow> model_instance option" where
  "demo_from_row m row related =
     (case map_of row (pkname m) of
        None \<Rightarrow> None
      | Some VNone \<Rightarrow> None
      | Some _ \<Rightarrow>
          Some (concat (map (\<lambda>(k, v).
                  if k \<in> set related then (if v = VNone then [] else [(k, VList [v])])
                  else [(k, v)]) row)))"

text \<open>
  Modelled from the spec: \<^verbatim>\<open>Model.merge_instances_list\<close> (\<section>4.3, step 2), not in the
  sources.  Candidates are visited in row order; a candidate whose primary key was seen
  before is folded into the first-seen instance, its related sub-objects appended when
  not yet present by their own key (\<^verbatim>\<open>id\<close>).
\<close>

definition own_key :: "val \<Rightarrow> val option" where
  "own_key v = (case v of VModel fs \<Rightarrow> map_of fs ''id'' | _ \<Rightarrow> None)"

definition append_missing :: "val \<Rightarrow> val \<Rightarrow> val" where
  "append_missing old new =
     (case (old, new) of
        (VList xs, VList ys) \<Rightarrow> VList (xs @ filter (\<lambda>y. own_key y \<notin> set (map own_key xs)) ys)
      | _ \<Rightarrow> old)"

definition merge_two_instances :: "model_instance \<Rightarrow> model_instance \<Rightarrow> model_instance" where
  "merge_two_instances seen later =
     map (\<lambda>(k, v). case map_of later k of None \<Rightarrow> (k, v) | Some v' \<Rightarrow> (k, append_missing v v')) seen"

fun absorb ::
  "string \<Rightarrow> model_instance \<Rightarrow> model_instance option list \<Rightarrow> model_instance option list" where
  "absorb pk cand [] = [Some cand]"
| "absorb pk cand (None # seen) = None # absorb pk cand seen"
| "absorb pk cand (Some x # seen) =
     (if map_of x pk = map_of cand pk then Some (merge_two_instances x cand) # seen
      else Some x # absorb pk cand seen)"

fun merge_candidates ::
  "string \<Rightarrow> model_instance option list \<Rightarrow> model_instance option list \<Rightarrow>
   model_instance option list" where
  "merge_candidates pk seen [] = seen"
| "merge_candidates pk seen (None # cands) = merge_candidates pk (seen @ [None]) cands"
| "merge_candidates pk seen (Some c # cands) = merge_candidates pk (absorb pk c seen) cands"

definition demo_merge_instances_list ::
  "model_class \<Rightarrow> model_instance option list \<Rightarrow> model_instance option list" where
  "demo_merge_instances_list m cands = merge_candidates (pkname m) [] cands"

text \<open>
  Modelled from the spec: \<^verbatim>\<open>Model.substitute_models_with_pks\<close> and the model constructor
  (\<section>4.5, \<section>6), not in the sources.  A related object among the fields is replaced by its
  key; a new instance has every declared field, \<^verbatim>\<open>None\<close> where the caller gave none.
\<close>

definition demo_substitute_models_with_pks :: "model_class \<Rightarrow> kwargs \<Rightarrow> kwargs" where
  "demo_substitute_models_with_pks m kw =
     map (\<lambda>(k, v). (k, case v of
                        VModel fs \<Rightarrow> (case map_of fs ''id'' of None \<Rightarrow> VNone | Some p \<Rightarrow> p)
                      | _ \<Rightarrow> v)) kw"

definition demo_new_instance :: "model_class \<Rightarrow> kwargs \<Rightarrow> model_instance" where
  "demo_new_instance m kw =
     map (\<lambda>(n, f). (n, case map_of kw n of None \<Rightarrow> VNone | Some v \<Rightarrow> v)) (model_fields m)"

text \<open>
  Modelled from the spec: the database transport (\<section>6), an external library.  A select
  keeps the rows on which every filter clause and no exclude clause holds, then applies
  offset and limit to those raw rows.  An insert without a key generates the next integer
  key and returns it; update and delete return the number of rows they touched.
\<close>

definition cap :: "int option \<Rightarrow> 'a list \<Rightarrow> 'a list" where
  "cap n xs = (case n of None \<Rightarrow> xs | Some k \<Rightarrow> take (nat k) xs)"

definition skip :: "int option \<Rightarrow> 'a list \<Rightarrow> 'a list" where
  "skip n xs = (case n of None \<Rightarrow> xs | Some k \<Rightarrow> drop (nat k) xs)"

definition selected :: "clause list \<Rightarrow> clause list \<Rightarrow> kwargs \<Rightarrow> bool" where
  "selected fs es row = (list_all (\<lambda>c. holds c row) fs \<and> list_all (\<lambda>c. \<not> holds c row) es)"

definition demo_fetch_all :: "clause select \<Rightarrow> kwargs list \<Rightarrow> string + kwargs list" where
  "demo_fetch_all s rows =
     Inr (cap (sel_limit s) (skip (sel_offset s)
            (filter (selected (sel_filters s) (sel_excludes s)) rows)))"

definition demo_execute :: "clause stmt \<Rightarrow> kwargs list \<Rightarrow> (string + val) \<times> kwargs list" where
  "demo_execute s rows =
     (case s of
        Insert kw \<Rightarrow>
          (case map_of kw ''id'' of
             Some k \<Rightarrow> (Inr k, rows @ [kw])
           | None \<Rightarrow> (Inr (VInt (int (length rows) + 1)),
                      rows @ [(''id'', VInt (int (length rows) + 1)) # kw]))
      | Update cs kw \<Rightarrow>
          (Inr (VInt (int (length (filter (selected cs []) rows)))),
           map (\<lambda>r. if selected cs [] r then fold (\<lambda>(k, v). AList.update k v) kw r else r) rows)
      | Delete cs \<Rightarrow>
          (Inr (VInt (int (length (filter (selected cs []) rows)))),
           filter (\<lambda>r. \<not> selected cs [] r) rows)
      | _ \<Rightarrow> (Inl ''execute: batched statement'', rows))"

definition demo_execute_many ::
  "clause stmt \<Rightarrow> kwargs list \<Rightarrow> kwargs list \<Rightarrow> (string + unit) \<times> kwargs list" where
  "demo_execute_many s params rows =
     (case s of
        InsertMany \<Rightarrow> (Inr (), rows @ params)
      | UpdateMany pk cols \<Rightarrow>
          (Inr (),
           map (\<lambda>r. fold (\<lambda>p r'. if map_of p (''new_'' @ pk) = map_of r' pk
                                then fold (\<lambda>k r''. case map_of p (''new_'' @ k) of
                                                     None \<Rightarrow> r''
                                                   | Some v \<Rightarrow> AList.update k v r'') cols r'
                                else r') params r) rows)
      | _ \<Rightarrow> (Inl ''execute_many: single statement'', rows))"

definition demo_env :: "(clause, kwargs, kwargs list) env" where
  "demo_env =
     \<lparr> qryclause_filter = demo_qryclause_filter,
       from_row = demo_from_row,
       merge_instances_list = demo_merge_instances_list,
       substitute_models_with_pks = demo_substitute_models_with_pks,
       new_instance = demo_new_instance,
       fetch_all = demo_fetch_all,
       execute = demo_execute,
       execute_many = demo_execute_many \<rparr>"

text \<open>The entity of the examples: albums, with an autoincrementing integer key.\<close>

definition Album :: model_class where
  "Album =
     \<lparr> cls_name = ''Album'',
       pkname = ''id'',
       model_fields =
         [(''id'', \<lparr>has_default = False, get_default = VNone, nullable = False,
                    autoincrement = True\<rparr>),
          (''name'', \<lparr>has_default = False, get_default = VNone, nullable = False,
                      autoincrement = False\<rparr>),
          (''plays'', \<lparr>has_default = True, get_default = VInt 0, nullable = False,
                       autoincrement = False\<rparr>)],
       pk_type = TInt,
       extract_db_own_fields = [''id'', ''name'', ''plays''],
       extract_related_names = [''tracks''] \<rparr>"

text \<open>\<^verbatim>\<open>Album.objects\<close>: the descriptor's \<^verbatim>\<open>__get__\<close> builds \<^verbatim>\<open>QuerySet(model_cls=owner)\<close>.\<close>

definition Album_objects :: "clause QuerySet" where
  "Album_objects = QuerySet_init (Some Album) None None None None None"

text \<open>
  The fan-out of \<section>8: three raw rows of albums joined with their tracks.  Album 1 has the
  tracks 10 and 11, album 2 has the track 12.
\<close>

definition fanout_rows :: "kwargs list" where
  "fanout_rows =
     [[(''id'', VInt 1), (''name'', VStr ''K1''), (''tracks'', VModel [(''id'', VInt 10)])],
      [(''id'', VInt 1), (''name'', VStr ''K1''), (''tracks'', VModel [(''id'', VInt 11)])],
      [(''id'', VInt 2), (''name'', VStr ''K2''), (''tracks'', VModel [(''id'', VInt 12)])]]"

definition Album_with_tracks :: "clause QuerySet" where
  "Album_with_tracks = QuerySet_init (Some Album) None None (Some [''tracks'']) None None"

definition start :: "kwargs list \<Rightarrow> (clause, kwargs list) world" where
  "start rows = \<lparr>store = rows, issued = []\<rparr>"

text \<open>Two albums without tracks; two unsaved albums; a transport whose reads fail.\<close>

definition offline_env :: "(clause, kwargs, kwargs list) env" where
  "offline_env = demo_env\<lparr>fetch_all := (\<lambda>s rows. Inl ''connection lost'')\<rparr>"

definition two_albums :: "kwargs list" where
  "two_albums = [[(''id'', VInt 1), (''name'', VStr ''K1'')], [(''id'', VInt 2), (''name'', VStr ''K2'')]]"

definition two_new_albums :: "kwargs list" where
  "two_new_albums = [[(''id'', VNone), (''name'', VStr ''N'')], [(''id'', VNone), (''name'', VStr ''M'')]]"

section \<open>Unfolding\<close>

lemmas demo_defs =
  demo_env_def demo_qryclause_filter_def demo_from_row_def demo_merge_instances_list_def
  demo_substitute_models_with_pks_def demo_new_instance_def demo_fetch_all_def demo_execute_def
  demo_execute_many_def cap_def skip_def selected_def holds_def own_key_def append_missing_def
  merge_two_instances_def Album_def Album_objects_def Album_with_tracks_def fanout_rows_def
  start_def

lemmas qs_defs =
  QuerySet_init_def model_def filter_qs_def exclude_def select_related_def as_list_def limit_def
  offset_def build_select_expression_def process_query_result_rows_def
  check_single_result_rows_count_def item0_def all0_def all_def first0_def first_def get0_def
  get_def db_fetch_all_def db_execute_def db_execute_many_def

lemmas write_defs =
  update_def create_def get_or_create_def bulk_create_def bulk_update_def
  bulk_update_columns_def unsaved_message_def remove_pk_from_kwargs_def
  populate_default_values_def assign_pk_def assign_default_pk_def obj_dict_def
  remove_pk_in_place_def substitute_in_place_def populate_in_place_def Let_def

section \<open>The single-result check\<close>

lemma check_single_cases:
  "check_single_result_rows_count rows =
     (case rows of
        [] \<Rightarrow> Inl NoMatch
      | None # _ \<Rightarrow> Inl NoMatch
      | [Some x] \<Rightarrow> Inr ()
      | Some x # _ # _ \<Rightarrow> Inl MultipleMatches)"
  by (simp add: check_single_result_rows_count_def split: list.splits option.splits)

lemma check_single_ok:
  "check_single_result_rows_count rows = Inr u \<Longrightarrow> \<exists>x. rows = [Some x]"
  by (simp add: check_single_cases split: list.splits option.splits)

lemma first0_not_null: "first0 E q w = (Inr r, w') \<Longrightarrow> r \<noteq> None"
  by (auto simp: first0_def item0_def split: sum.splits prod.splits dest!: check_single_ok)

lemma get0_not_null: "get0 E q w = (Inr r, w') \<Longrightarrow> r \<noteq> None"
  by (auto simp: get0_def Let_def item0_def split: sum.splits prod.splits dest!: check_single_ok)

text \<open>
  C10.  In the single-result check a list that is not empty but starts with \<^verbatim>\<open>None\<close> is
  answered like the empty list, with \<^verbatim>\<open>NoMatch\<close>; \<^verbatim>\<open>MultipleMatches\<close> is raised only for
  a list longer than one; and whatever the materializer produces, a \<^verbatim>\<open>get\<close> or \<^verbatim>\<open>first\<close>
  that returns does not return \<^verbatim>\<open>None\<close>.
\<close>

theorem single_result_null_first_row:
  "(rows \<noteq> [] \<and> hd rows = None \<longrightarrow> check_single_result_rows_count rows = Inl NoMatch)
   \<and> check_single_result_rows_count ([] :: 'a option list) = Inl NoMatch
   \<and> (check_single_result_rows_count rows' = Inl MultipleMatches \<longrightarrow> 1 < length rows')
   \<and> (get E q kw w = (Inr r, w') \<longrightarrow> r \<noteq> None)
   \<and> (first E q2 kw2 w2 = (Inr r2, w2') \<longrightarrow> r2 \<noteq> None)"
proof -
  have a: "rows \<noteq> [] \<and> hd rows = None \<longrightarrow> check_single_result_rows_count rows = Inl NoMatch"
    by (simp add: check_single_result_rows_count_def)
  have b: "check_single_result_rows_count ([] :: 'a option list) = Inl NoMatch"
    by (simp add: check_single_result_rows_count_def)
  have c: "check_single_result_rows_count rows' = Inl MultipleMatches \<longrightarrow> 1 < length rows'"
    by (simp add: check_single_result_rows_count_def split: if_splits)
  have d: "get E q kw w = (Inr r, w') \<longrightarrow> r \<noteq> None"
    by (auto simp: get_def split: if_splits sum.splits dest: get0_not_null)
  have e: "first E q2 kw2 w2 = (Inr r2, w2') \<longrightarrow> r2 \<noteq> None"
    by (auto simp: first_def split: if_splits sum.splits dest: first0_not_null)
  from a b c d e show ?thesis by blast
qed

theorem single_result_null_first_row_witness:
  "check_single_result_rows_count [None, Some (1::nat)] = Inl NoMatch
   \<and> length [Some (1::nat), Some 2] > 1
   \<and> fst (get demo_env Album_objects [(''id'', VInt 2)] (start fanout_rows)) \<noteq> Inr None
   \<and> fst (first demo_env Album_objects [] (start fanout_rows)) \<noteq> Inr None
   \<and> fst (get demo_env Album_objects [] (start [[(''name'', VStr ''x'')]])) = Inl NoMatch"
  using single_result_null_first_row
    [of "[None, Some (1::nat)]" "[Some (1::nat), Some 2]" demo_env Album_objects
        "[(''id'', VInt 2)]" "start fanout_rows"
        "Some [(''id'', VInt 2), (''name'', VStr ''K2''), (''tracks'', VModel [(''id'', VInt 12)])]"
        "snd (get demo_env Album_objects [(''id'', VInt 2)] (start fanout_rows))"
        Album_objects "[]" "start fanout_rows"
        "Some [(''id'', VInt 1), (''name'', VStr ''K1''), (''tracks'', VModel [(''id'', VInt 10)])]"
        "snd (first demo_env Album_objects [] (start fanout_rows))"]
  by (simp add: qs_defs demo_defs)

section \<open>Filter and exclude\<close>

text \<open>
  Whatever the predicate builder does, the exclude clauses that \<^verbatim>\<open>exclude(**kw)\<close> produces
  are the filter clauses that \<^verbatim>\<open>filter(**kw)\<close> produces on the same receiver: both are
  the builder's answer, and the builder is seeded with the receiver's filter clauses in
  both cases.
\<close>

lemma exclude_takes_filter_result:
  "map_sum id exclude_clauses (exclude E q kw) = map_sum id filter_clauses (filter_qs E q False kw)"
  by (simp add: exclude_def filter_qs_def QuerySet_init_def split: sum.splits prod.splits)

text \<open>
  C1.  Filter clauses are meant to stay out of \<^verbatim>\<open>exclude_clauses\<close>.  On
  \<^verbatim>\<open>Album.objects.filter(a=1).exclude(b=2)\<close>, with a builder that continues the clause
  list it was seeded with, the clause built from \<^verbatim>\<open>a=1\<close> is in the result's
  \<^verbatim>\<open>exclude_clauses\<close>.
\<close>

theorem filter_then_exclude_leaks:
  "map_sum id exclude_clauses
     (chain_all demo_env Album_objects [CFilter [(''a'', VInt 1)], CExclude [(''b'', VInt 2)]])
   = Inr [(''a'', VInt 1), (''b'', VInt 2)]"
  by (simp add: qs_defs demo_defs)

section \<open>The capped get\<close>

text \<open>
  C2.  A \<^verbatim>\<open>get()\<close> without filter clauses is meant to fail with \<^verbatim>\<open>MultipleMatches\<close> when
  two or more rows match.  On the fan-out rows, with the relation \<^verbatim>\<open>tracks\<close> selected, the
  cap of two keeps the two raw rows of album 1, the merge folds them into one object, and
  \<^verbatim>\<open>get()\<close> returns album 1, although \<^verbatim>\<open>all()\<close> on the same specification finds the
  albums 1 and 2.
\<close>

theorem get_capped_fanout:
  "fst (get demo_env Album_with_tracks [] (start fanout_rows)) =
     Inr (Some [(''id'', VInt 1), (''name'', VStr ''K1''),
                (''tracks'', VList [VModel [(''id'', VInt 10)], VModel [(''id'', VInt 11)]])])
   \<and> map_sum id (map (\<lambda>x. map_option (\<lambda>i. map_of i ''id'') x))
        (fst (all demo_env Album_with_tracks [] (start fanout_rows)))
     = Inr [Some (Some (VInt 1)), Some (Some (VInt 2))]"
  by (simp add: qs_defs demo_defs)

text \<open>
  On a plain table the cap does what it is there for: two albums give
  \<^verbatim>\<open>MultipleMatches\<close>, one album is returned, none gives \<^verbatim>\<open>NoMatch\<close>.  The statement that
  reaches the transport carries the limit 2.
\<close>

lemma get_capped_plain:
  "fst (get demo_env Album_objects [] (start two_albums)) = Inl MultipleMatches
   \<and> fst (get demo_env Album_objects [] (start [[(''id'', VInt 1), (''name'', VStr ''K1'')]]))
       = Inr (Some [(''id'', VInt 1), (''name'', VStr ''K1'')])
   \<and> fst (get demo_env Album_objects [] (start [])) = Inl NoMatch"
  by (simp add: qs_defs demo_defs two_albums_def)

lemma get0_capped_statement:
  "model_cls q = Some m \<Longrightarrow> filter_clauses q = [] \<Longrightarrow>
   issued (snd (get0 E q w)) =
     issued w @ [FetchAll \<lparr> sel_model = m, sel_related = select_related_list q,
                             sel_filters = [], sel_excludes = exclude_clauses q,
                             sel_offset = query_offset q, sel_limit = Some 2 \<rparr>]"
  by (simp add: get0_def build_select_expression_def model_def db_fetch_all_def Let_def
      split: sum.splits prod.splits)

section \<open>Chaining leaves the receiver alone\<close>





section \<open>Select-related paths\<close>




section \<open>The guard of update\<close>




section \<open>The key of a created object\<close>



section \<open>Bulk update needs saved objects\<close>




section \<open>get-or-create catches NoMatch only\<close>

lemma get0_reads_only:
  "get0 E q w = (r, w1) \<Longrightarrow>
   store w1 = store w \<and> (issued w1 = issued w \<or> (\<exists>s. issued w1 = issued w @ [FetchAll s]))"
  by (auto simp: get0_def Let_def db_fetch_all_def split: sum.splits prod.splits)

lemma get_reads_only:
  "get E q kw w = (r, w1) \<Longrightarrow>
   store w1 = store w \<and> (issued w1 = issued w \<or> (\<exists>s. issued w1 = issued w @ [FetchAll s]))"
  by (auto simp: get_def split: if_splits sum.splits dest: get0_reads_only)

text \<open>
  C8.  \<^verbatim>\<open>get_or_create(**fields)\<close> returns what \<^verbatim>\<open>get(**fields)\<close> returns when that
  succeeds; when \<^verbatim>\<open>get\<close> fails with \<^verbatim>\<open>NoMatch\<close> it continues with \<^verbatim>\<open>create(**fields)\<close> in
  the world \<^verbatim>\<open>get\<close> left; every other failure of \<^verbatim>\<open>get\<close> comes back unchanged, in the
  world \<^verbatim>\<open>get\<close> left, whose database state is the initial one and whose only new call,
  if any, is the fetch: no create was attempted.
\<close>

theorem get_or_create_selective:
  "(get E q kw w = (Inr found, w1) \<longrightarrow> get_or_create E q kw w = (Inr found, w1))
   \<and> (get E q kw w = (Inl NoMatch, w1) \<longrightarrow>
        get_or_create E q kw w = map_prod (map_sum id Some) id (create E q kw w1))
   \<and> (get E q kw w = (Inl e, w1) \<and> e \<noteq> NoMatch \<longrightarrow>
        get_or_create E q kw w = (Inl e, w1) \<and> store w1 = store w
        \<and> (issued w1 = issued w \<or> (\<exists>s. issued w1 = issued w @ [FetchAll s])))"
proof -
  have a: "get E q kw w = (Inr found, w1) \<longrightarrow> get_or_create E q kw w = (Inr found, w1)"
    by (simp add: get_or_create_def)
  have b: "get E q kw w = (Inl NoMatch, w1) \<longrightarrow>
        get_or_create E q kw w = map_prod (map_sum id Some) id (create E q kw w1)"
    by (simp add: get_or_create_def split: prod.splits sum.splits)
  have c: "get E q kw w = (Inl e, w1) \<and> e \<noteq> NoMatch \<longrightarrow> get_or_create E q kw w = (Inl e, w1)"
    by (cases e) (simp_all add: get_or_create_def)
  have d: "get E q kw w = (Inl e, w1) \<longrightarrow> store w1 = store w
        \<and> (issued w1 = issued w \<or> (\<exists>s. issued w1 = issued w @ [FetchAll s]))"
    using get_reads_only by blast
  from a b c d show ?thesis by blast
qed

theorem get_or_create_selective_witness:
  "fst (get_or_create demo_env Album_objects [(''id'', VInt 2)] (start two_albums))
     = Inr (Some [(''id'', VInt 2), (''name'', VStr ''K2'')])
   \<and> fst (get_or_create demo_env Album_objects [(''name'', VStr ''x'')] (start two_albums))
     = Inr (Some [(''id'', VInt 3), (''name'', VStr ''x''), (''plays'', VNone)])
   \<and> get_or_create demo_env Album_objects [] (start two_albums)
     = (Inl MultipleMatches, snd (get demo_env Album_objects [] (start two_albums)))
   \<and> store (snd (get_or_create demo_env Album_objects [] (start two_albums))) = two_albums
   \<and> fst (get_or_create offline_env Album_objects [(''name'', VStr ''x'')] (start two_albums))
     = Inl (TransportError ''connection lost'')
   \<and> store (snd (get_or_create offline_env Album_objects [(''name'', VStr ''x'')] (start two_albums)))
     = two_albums"
  using get_or_create_selective [of demo_env Album_objects "[(''id'', VInt 2)]" "start two_albums"
          "Some [(''id'', VInt 2), (''name'', VStr ''K2'')]"
          "snd (get demo_env Album_objects [(''id'', VInt 2)] (start two_albums))"]
        get_or_create_selective [of demo_env Album_objects "[(''name'', VStr ''x'')]" "start two_albums"
          _ "snd (get demo_env Album_objects [(''name'', VStr ''x'')] (start two_albums))"]
        get_or_create_selective [of demo_env Album_objects "[]" "start two_albums"
          _ "snd (get demo_env Album_objects [] (start two_albums))" MultipleMatches]
        get_or_create_selective [of offline_env Album_objects "[(''name'', VStr ''x'')]" "start two_albums"
          _ "snd (get offline_env Album_objects [(''name'', VStr ''x'')] (start two_albums))"
          "TransportError ''connection lost''"]
  by (simp add: qs_defs write_defs demo_defs offline_env_def two_albums_def)

section \<open>Bulk create does not touch the caller's objects\<close>

lemma bulk_create_step_frame:
  assumes "obj_dict heap objt = (r0, h0)"
      and "remove_pk_in_place m r0 h0 = (res1, h1)"
  shows "length h1 = Suc (length heap) \<and> (\<forall>r<length heap. h1 ! r = heap ! r)
         \<and> (\<forall>r1. res1 = Inr r1 \<longrightarrow> r1 = length heap)"
  using assms
  by (auto simp: obj_dict_def remove_pk_in_place_def nth_append nth_list_update
      split: sum.splits)

lemma bulk_create_loop_frame:
  "bulk_create_loop E m objects heap = (res, heap') \<Longrightarrow>
   length heap \<le> length heap' \<and> (\<forall>r<length heap. heap' ! r = heap ! r)"
proof (induction objects arbitrary: heap res heap')
  case Nil
  then show ?case by simp
next
  case (Cons objt objects)
  obtain r0 h0 where a: "obj_dict heap objt = (r0, h0)" by (cases "obj_dict heap objt")
  obtain res1 h1 where b: "remove_pk_in_place m r0 h0 = (res1, h1)"
    by (cases "remove_pk_in_place m r0 h0")
  note f1 = bulk_create_step_frame [OF a b]
  show ?case
  proof (cases res1)
    case (Inl e)
    with Cons.prems a b have "heap' = h1" by simp
    with f1 show ?thesis by simp
  next
    case (Inr r1)
    define h3 where
      "h3 = (h1[r1 := substitute_models_with_pks E m (h1 ! r1)])
              [r1 := populate_default_values m
                       ((h1[r1 := substitute_models_with_pks E m (h1 ! r1)]) ! r1)]"
    have f3: "length h3 = Suc (length heap) \<and> (\<forall>r<length heap. h3 ! r = heap ! r)"
      using f1 Inr by (simp add: h3_def nth_list_update)
    obtain res4 h4 where c: "bulk_create_loop E m objects h3 = (res4, h4)"
      by (cases "bulk_create_loop E m objects h3")
    have "heap' = h4"
      using Cons.prems a b Inr c
      by (simp add: substitute_in_place_def populate_in_place_def h3_def split: sum.splits)
    moreover have "length h3 \<le> length h4 \<and> (\<forall>r<length h3. h4 ! r = h3 ! r)"
      using Cons.IH [OF c] .
    ultimately show ?thesis using f3 by simp
  qed
qed

text \<open>
  C9.  After \<^verbatim>\<open>bulk_create(objects)\<close> every cell that was on the heap before the call
  holds what it held, so each of the caller's objects has the field mapping it had: in
  particular any field \<open>k\<close>, the primary key included, is as before, and no generated
  key is written back.  The call returns \<^verbatim>\<open>None\<close> or fails; there is no per-row result.
\<close>

theorem bulk_create_leaves_objects:
  assumes "bulk_create E q objects heap w = ((res, heap'), w')"
  shows "(\<forall>r<length heap. heap' ! r = heap ! r)
         \<and> (\<forall>objt\<in>set objects. objt < length heap \<longrightarrow>
              map_of (heap' ! objt) k = map_of (heap ! objt) k)
         \<and> ((\<exists>e. res = Inl e) \<or> res = Inr ())"
proof -
  have frame: "\<forall>r<length heap. heap' ! r = heap ! r"
  proof (cases "model q")
    case (Inl e)
    with assms show ?thesis by (simp add: bulk_create_def)
  next
    case (Inr m)
    obtain res1 h1 where l: "bulk_create_loop E m objects heap = (res1, h1)"
      by (cases "bulk_create_loop E m objects heap")
    with assms Inr have "heap' = h1"
      by (auto simp: bulk_create_def split: sum.splits prod.splits)
    with bulk_create_loop_frame [OF l] show ?thesis by simp
  qed
  moreover have "(\<exists>e. res = Inl e) \<or> res = Inr ()"
    by (cases res) auto
  ultimately show ?thesis by simp
qed

theorem bulk_create_leaves_objects_witness:
  "fst (fst (bulk_create demo_env Album_objects [0, 1] two_new_albums (start []))) = Inr ()
   \<and> snd (fst (bulk_create demo_env Album_objects [0, 1] two_new_albums (start []))) ! 0
       = [(''id'', VNone), (''name'', VStr ''N'')]
   \<and> snd (fst (bulk_create demo_env Album_objects [0, 1] two_new_albums (start []))) ! 1
       = [(''id'', VNone), (''name'', VStr ''M'')]
   \<and> store (snd (bulk_create demo_env Album_objects [0, 1] two_new_albums (start [])))
       = [[(''name'', VStr ''N''), (''plays'', VInt 0)], [(''name'', VStr ''M''), (''plays'', VInt 0)]]"
  using bulk_create_leaves_objects [of demo_env Album_objects "[0, 1]" two_new_albums "start []"
      "Inr ()" "snd (fst (bulk_create demo_env Album_objects [0, 1] two_new_albums (start [])))"
      "snd (bulk_create demo_env Album_objects [0, 1] two_new_albums (start []))" "''id''"]
  by (simp add: qs_defs write_defs demo_defs two_new_albums_def)

end
